theory Spec2Isabelle
  imports Complex_Main "HOL-Library.Sublist" "HOL-Library.Word"
begin

section \<open>Python values shared by the three modules\<close>

text \<open>
  An exception is kept as the name of its class (what \<^verbatim>\<open>type(exc).__name__\<close> returns)
  and whether the class derives from \<^verbatim>\<open>Exception\<close>: the handler of the streaming use
  case is \<^verbatim>\<open>except Exception\<close>, which lets \<^verbatim>\<open>BaseException\<close>s such as
  \<^verbatim>\<open>asyncio.CancelledError\<close> or \<^verbatim>\<open>KeyboardInterrupt\<close> pass.
  A function that may raise returns \<open>py_exc + 'a\<close>, with \<open>Inl\<close> for the raise.
\<close>

datatype py_exc = PyExc (type_name: string) (is_Exception: bool)

type_synonym UUID = "128 word"

text \<open>
  The module \<^verbatim>\<open>settings\<close> is not among the sources: its values are a parameter. The
  type \<open>'t\<close> is the type of clock readings and durations (Python floats); the model
  does no arithmetic on it beyond the \<open>+\<close> and \<open>-\<close> the code writes.
\<close>

record 't settings =
  JWT_CLIENT_ID :: string
  JWT_CLIENT_SECRET :: string
  JWT_TOKEN_EXPIRATION_SECONDS :: 't
  MAX_CONTEXT_DOCUMENTS_COUNT :: int
  PROMPT_HISTORY_INCLUDED_COUNT :: int
  PROMPTS_DIRECTORY :: string
  CONVERSATIONS_DIR :: string
  UNITY_COPILOT_URL :: "string option"

text \<open>Truthiness of an optional string: \<^verbatim>\<open>None\<close> and \<^verbatim>\<open>""\<close> are false.\<close>

fun truthy_opt_str :: "string option \<Rightarrow> bool" where
  "truthy_opt_str None = False"
| "truthy_opt_str (Some s) = (s \<noteq> [])"

text \<open>
  The file system, as far as the code touches it: \<^verbatim>\<open>os.makedirs(path, exist_ok=True)\<close>
  (\<open>None\<close> when it returns) and \<^verbatim>\<open>open(path, "r").read()\<close>.
\<close>

record os_env =
  makedirs :: "string \<Rightarrow> py_exc option"
  open_read :: "string \<Rightarrow> py_exc + string"

text \<open>\<^verbatim>\<open>os.path.join\<close> of two components (POSIX).\<close>

definition os_path_join :: "string \<Rightarrow> string \<Rightarrow> string" where
  "os_path_join a b =
     (if prefix ''/'' b then b
      else if a = [] \<or> suffix ''/'' a then a @ b
      else a @ ''/'' @ b)"

subsection \<open>\<^verbatim>\<open>str.replace\<close>\<close>

text \<open>
  \<^verbatim>\<open>s.replace(old, new)\<close> is \<open>str_replace old new None s\<close> and
  \<^verbatim>\<open>s.replace(old, new, n)\<close> is \<open>str_replace old new (Some n) s\<close>: occurrences are
  found from the left and do not overlap; the text put in is not scanned again. With an
  empty \<open>old\<close> Python puts \<open>new\<close> in front of every character and at the end.
\<close>

fun dec_count :: "nat option \<Rightarrow> nat option" where
  "dec_count None = None"
| "dec_count (Some n) = Some (n - 1)"

fun replace_interleave :: "'a list \<Rightarrow> nat option \<Rightarrow> 'a list \<Rightarrow> 'a list" where
  "replace_interleave new cnt [] = (if cnt = Some 0 then [] else new)"
| "replace_interleave new cnt (c # cs) =
     (if cnt = Some 0 then c # cs else new @ c # replace_interleave new (dec_count cnt) cs)"

function str_replace :: "'a list \<Rightarrow> 'a list \<Rightarrow> nat option \<Rightarrow> 'a list \<Rightarrow> 'a list" where
  "str_replace old new cnt s =
     (if cnt = Some 0 then s
      else if old = [] then replace_interleave new cnt s
      else if s = [] then []
      else if prefix old s then new @ str_replace old new (dec_count cnt) (drop (length old) s)
      else hd s # str_replace old new cnt (tl s))"
  by pat_completeness auto
termination
  by (relation "measure (\<lambda>(old, new, cnt, s). length s)") auto

declare str_replace.simps [simp del]

section \<open>Entities\<close>

text \<open>
  What \<^verbatim>\<open>json.loads\<close> returns. A dict is the list of its items; \<^verbatim>\<open>None\<close> is \<open>JNull\<close>.
  The parser itself is a library function and a parameter of the model.
\<close>

datatype json =
    JNull
  | JBool bool
  | JInt int
  | JFloat real
  | JStr string
  | JArr "json list"
  | JObj "(string \<times> json) list"

text \<open>Python's truth value of a parsed value, as \<^verbatim>\<open>if token := ...\<close> tests it.\<close>

fun truthy :: "json \<Rightarrow> bool" where
  "truthy JNull = False"
| "truthy (JBool b) = b"
| "truthy (JInt i) = (i \<noteq> 0)"
| "truthy (JFloat r) = (r \<noteq> 0)"
| "truthy (JStr s) = (s \<noteq> [])"
| "truthy (JArr xs) = (xs \<noteq> [])"
| "truthy (JObj kvs) = (kvs \<noteq> [])"

text \<open>
  \<^verbatim>\<open>parsed.get(key)\<close>: the value, or \<^verbatim>\<open>None\<close> for a missing key; only a dict has the
  method, every other parsed value raises \<^verbatim>\<open>AttributeError\<close>.
\<close>

fun dict_get :: "json \<Rightarrow> string \<Rightarrow> py_exc + json" where
  "dict_get (JObj kvs) key = Inr (case map_of kvs key of None \<Rightarrow> JNull | Some v \<Rightarrow> v)"
| "dict_get other key = Inl (PyExc ''AttributeError'' True)"

text \<open>
  \<^verbatim>\<open>StreamingChunk\<close> and \<^verbatim>\<open>LoadingMessage\<close> are declared outside the sources. A chunk
  has the five fields the code and the specification name; the two the code leaves
  out of a constructor call are \<^verbatim>\<open>None\<close>. Python does not check the annotation of
  \<^verbatim>\<open>text\<close>, so the field holds the parsed value of the key \<^verbatim>\<open>token\<close> as it is.
  \<^verbatim>\<open>LoadingMessage.from_dict\<close> is a parameter: it returns a message or raises.
\<close>

record 'lm StreamingChunk =
  chat_id :: UUID
  "text" :: json
  sources :: "string list"
  loading_message :: "'lm option"
  error :: "string option"

text \<open>The input of one chat turn; \<open>chat_id\<close> without a qualifier is its field.\<close>

record UserMessageInput =
  chat_id :: UUID
  message :: string
  response_message_id :: string

section \<open>\<^verbatim>\<open>src/domain/chat/utils.py\<close>\<close>

record History =
  template_with_history :: string
  formatted_history :: string

text \<open>
  The history repository is a collaborator: \<^verbatim>\<open>get_prompt_history(chat_id, count)\<close>
  returns a text or raises. (\<^verbatim>\<open>save_history\<close> is an effect, recorded by the streaming
  use case below.)
\<close>

record ConversationHistoryRepositoryLocal =
  get_prompt_history :: "UUID \<Rightarrow> int \<Rightarrow> py_exc + string"

definition add_history ::
  "'t settings \<Rightarrow> os_env \<Rightarrow> string \<Rightarrow> UUID \<Rightarrow> ConversationHistoryRepositoryLocal
     \<Rightarrow> py_exc + History" where
  "add_history settings os template cid history_repository =
     (case makedirs os (CONVERSATIONS_DIR settings) of
        Some e \<Rightarrow> Inl e
      | None \<Rightarrow>
          (case get_prompt_history history_repository cid (PROMPT_HISTORY_INCLUDED_COUNT settings) of
             Inl e \<Rightarrow> Inl e
           | Inr fetched \<Rightarrow>
               (let history = str_replace ''}'' ''}}'' None (str_replace ''{'' ''{{'' None fetched)
                in Inr \<lparr>template_with_history = str_replace ''{history}'' history (Some 1) template,
                        formatted_history = history\<rparr>)))"

definition get_system_message :: "'t settings \<Rightarrow> os_env \<Rightarrow> string \<Rightarrow> py_exc + string" where
  "get_system_message settings os prompt_directory =
     (let file_path =
            (if prompt_directory \<noteq> PROMPTS_DIRECTORY settings
               then os_path_join prompt_directory ''prompt_template.txt''
             else if truthy_opt_str (UNITY_COPILOT_URL settings)
               then os_path_join (PROMPTS_DIRECTORY settings) ''prompt_template_with_unity.txt''
             else os_path_join prompt_directory ''prompt_template.txt'')
      in open_read os file_path)"

definition get_function_system_message :: "'t settings \<Rightarrow> os_env \<Rightarrow> py_exc + string" where
  "get_function_system_message settings os =
     open_read os (os_path_join (PROMPTS_DIRECTORY settings) ''prompt_template_unity_function.txt'')"

text \<open>The result is \<open>Inr None\<close> where the Python returns \<^verbatim>\<open>None\<close>.\<close>

definition get_unity_communication_prompt ::
  "'t settings \<Rightarrow> os_env \<Rightarrow> UserMessageInput \<Rightarrow> ConversationHistoryRepositoryLocal
     \<Rightarrow> py_exc + string option" where
  "get_unity_communication_prompt settings os domain_input history_repository =
     (if truthy_opt_str (UNITY_COPILOT_URL settings) then
        (case get_function_system_message settings os of
           Inl e \<Rightarrow> Inl e
         | Inr function_system_message \<Rightarrow>
             (case add_history settings os function_system_message (chat_id domain_input)
                     history_repository of
                Inl e \<Rightarrow> Inl e
              | Inr unity_history \<Rightarrow>
                  Inr (Some (str_replace ''{question}'' (message domain_input) (Some 1)
                               (template_with_history unity_history)))))
      else Inr None)"

section \<open>\<^verbatim>\<open>src/authorization/create_access_token.py\<close>\<close>

definition InvalidCredentialsAPIError :: py_exc where
  "InvalidCredentialsAPIError = PyExc ''InvalidCredentialsAPIError'' True"

text \<open>
  The payload is the dict the code builds, in the order it is written. \<^verbatim>\<open>jwt.encode\<close>
  is a library call and \<^verbatim>\<open>time.time()\<close> reads the clock: the encoder and the two
  readings (the code reads the clock once for \<^verbatim>\<open>iat\<close> and once for \<^verbatim>\<open>exp\<close>) are
  parameters.
\<close>

datatype 't jwt_value = JwtNum 't | JwtStr string

definition create_access_token_execute ::
  "('t::{plus,minus,numeral}) settings \<Rightarrow> ((string \<times> 't jwt_value) list \<Rightarrow> string \<Rightarrow> string \<Rightarrow> string)
     \<Rightarrow> 't \<Rightarrow> 't \<Rightarrow> string \<Rightarrow> string \<Rightarrow> string \<Rightarrow> py_exc + string" where
  "create_access_token_execute settings jwt_encode time_iat time_exp client_id client_secret user_id =
     (if client_id \<noteq> JWT_CLIENT_ID settings \<or> client_secret \<noteq> JWT_CLIENT_SECRET settings
        then Inl InvalidCredentialsAPIError
      else
        (let payload =
               [(''iat'', JwtNum (time_iat - 100)),
                (''exp'', JwtNum (time_exp + JWT_TOKEN_EXPIRATION_SECONDS settings)),
                (''sub'', JwtStr user_id)]
         in Inr (jwt_encode payload (JWT_CLIENT_SECRET settings) ''HS256'')))"

section \<open>\<^verbatim>\<open>src/domain/chat/on_user_message_streaming_use_case.py\<close>\<close>

subsection \<open>Context assembly\<close>

text \<open>
  The document store is a collaborator: \<^verbatim>\<open>find(query, k=k)\<close> returns documents or
  raises. \<open>get_context\<close> (\<^verbatim>\<open>_get_context\<close> in the source) returns the calls it made to
  the store, as pairs of query and \<open>k\<close>, beside its result.
\<close>

record 'doc DocumentStore =
  store_find :: "string \<Rightarrow> int \<Rightarrow> py_exc + 'doc list"

definition get_context ::
  "'t settings \<Rightarrow> UserMessageInput \<Rightarrow> string \<Rightarrow> 'doc DocumentStore
     \<Rightarrow> (string \<times> int) list \<times> (py_exc + 'doc list)" where
  "get_context settings domain_input system_message document_store =
     (let context = [] in
      if sublist ''{context}'' system_message then
        (let context = [];
             k = MAX_CONTEXT_DOCUMENTS_COUNT settings - int (length context)
         in ([(message domain_input, k)],
             (case store_find document_store (message domain_input) k of
                Inl e \<Rightarrow> Inl e
              | Inr found \<Rightarrow> Inr (context @ found))))
      else ([], Inr context))"

subsection \<open>The generator\<close>

text \<open>
  What the caller and the collaborators see of one request, in order: the calls to the
  document store, the chunks the generator yields, and the two calls of the
  \<^verbatim>\<open>finally\<close> block. \<^verbatim>\<open>validate_urls_use_case.execute\<close> and \<^verbatim>\<open>save_history\<close> are
  outside the sources; they are recorded with their arguments and taken to return.
\<close>

datatype ('lm, 'ts) effect =
    Find string int
  | is_Yield: Yield "'lm StreamingChunk"
  | ValidateUrls string UUID
  | SaveHistory string string 'ts 'ts UUID string

text \<open>
  One run of the background task \<^verbatim>\<open>get_gpt_result_use_case.execute\<close>, as the
  generator meets it: the raw events \<^verbatim>\<open>callback.aiter()\<close> delivers, in order; the
  exception that ends the iteration (\<open>None\<close> when the channel is exhausted); and what
  \<^verbatim>\<open>await task\<close> gives, an exception or the value of \<^verbatim>\<open>task.result()\<close>.
\<close>

record task_run =
  channel_items :: "string list"
  channel_raises :: "py_exc option"
  task_outcome :: "py_exc + string"

text \<open>
  The body of the \<^verbatim>\<open>async for\<close> loop for one raw event: the chunks it yields, and the
  exception that ends it, if any.
\<close>

definition loop_body ::
  "(string \<Rightarrow> py_exc + json) \<Rightarrow> (json \<Rightarrow> py_exc + 'lm) \<Rightarrow> UUID \<Rightarrow> string
     \<Rightarrow> 'lm StreamingChunk list \<times> py_exc option" where
  "loop_body json_loads from_dict cid callback_result =
     (case json_loads callback_result of
        Inl e \<Rightarrow> ([], Some e)
      | Inr parsed \<Rightarrow>
          (case dict_get parsed ''token'' of
             Inl e \<Rightarrow> ([], Some e)
           | Inr token \<Rightarrow>
               (let yielded =
                      (if truthy token
                         then [\<lparr>StreamingChunk.chat_id = cid, text = token, sources = [],
                                loading_message = None, error = None\<rparr>]
                       else [])
                in (case dict_get parsed ''loading_message'' of
                      Inl e \<Rightarrow> (yielded, Some e)
                    | Inr lm \<Rightarrow>
                        (if truthy lm then
                           (case from_dict lm of
                              Inl e \<Rightarrow> (yielded, Some e)
                            | Inr parsed_lm \<Rightarrow>
                                (yielded @ [\<lparr>StreamingChunk.chat_id = cid, text = JStr [], sources = [],
                                             loading_message = Some parsed_lm, error = None\<rparr>],
                                 None))
                         else (yielded, None))))))"

text \<open>
  The \<^verbatim>\<open>async for\<close> loop: the events are taken in order; the first exception ends the
  loop; after the last event the channel is either exhausted or raises.
\<close>

fun drain_channel ::
  "(string \<Rightarrow> py_exc + json) \<Rightarrow> (json \<Rightarrow> py_exc + 'lm) \<Rightarrow> UUID \<Rightarrow> string list
     \<Rightarrow> py_exc option \<Rightarrow> 'lm StreamingChunk list \<times> py_exc option" where
  "drain_channel json_loads from_dict cid [] ending = ([], ending)"
| "drain_channel json_loads from_dict cid (callback_result # rest) ending =
     (case loop_body json_loads from_dict cid callback_result of
        (yielded, Some e) \<Rightarrow> (yielded, Some e)
      | (yielded, None) \<Rightarrow>
          (case drain_channel json_loads from_dict cid rest ending of
             (later, outcome) \<Rightarrow> (yielded @ later, outcome)))"

text \<open>
  The \<^verbatim>\<open>try\<close> block: the chunks yielded, the value of the variable \<^verbatim>\<open>result\<close> when
  the block is left (it starts as the empty string and is assigned last), and the
  exception that left it, if any.
\<close>

definition try_block ::
  "(string \<Rightarrow> py_exc + json) \<Rightarrow> (json \<Rightarrow> py_exc + 'lm) \<Rightarrow> UUID \<Rightarrow> task_run
     \<Rightarrow> 'lm StreamingChunk list \<times> string \<times> py_exc option" where
  "try_block json_loads from_dict cid run =
     (case drain_channel json_loads from_dict cid (channel_items run) (channel_raises run) of
        (yielded, Some e) \<Rightarrow> (yielded, [], Some e)
      | (yielded, None) \<Rightarrow>
          (case task_outcome run of
             Inl e \<Rightarrow> (yielded, [], Some e)
           | Inr task_result \<Rightarrow> (yielded, task_result, None)))"

definition error_chunk :: "UUID \<Rightarrow> py_exc \<Rightarrow> 'lm StreamingChunk" where
  "error_chunk cid exc =
     \<lparr>StreamingChunk.chat_id = cid, text = JStr [], sources = [], loading_message = None,
      error = Some (''OpenAI error: '' @ type_name exc)\<rparr>"

text \<open>
  Lines 60 to 99: \<^verbatim>\<open>try\<close>, \<^verbatim>\<open>except Exception\<close> and \<^verbatim>\<open>finally\<close>. The result is the
  trace of the phase and the exception that leaves the generator, if any. The log line
  of the handler is not part of the trace. The consumer is taken to iterate the
  generator to its end.
\<close>

definition streaming_phase ::
  "(string \<Rightarrow> py_exc + json) \<Rightarrow> (json \<Rightarrow> py_exc + 'lm) \<Rightarrow> UserMessageInput \<Rightarrow> 'ts \<Rightarrow> 'ts
     \<Rightarrow> task_run \<Rightarrow> ('lm, 'ts) effect list \<times> py_exc option" where
  "streaming_phase json_loads from_dict domain_input message_timestamp response_timestamp run =
     (case try_block json_loads from_dict (chat_id domain_input) run of
        (yielded, result, raised) \<Rightarrow>
          (let (chunks, leaving) =
                 (case raised of
                    None \<Rightarrow> (yielded, None)
                  | Some exc \<Rightarrow>
                      (if is_Exception exc
                         then (yielded @ [error_chunk (chat_id domain_input) exc], None)
                       else (yielded, Some exc)))
           in (map Yield chunks @
                 [ValidateUrls result (chat_id domain_input),
                  SaveHistory (message domain_input) result message_timestamp response_timestamp
                    (chat_id domain_input) (response_message_id domain_input)],
               leaving)))"

text \<open>
  The whole generator. The background task is a parameter: from the arguments the code
  passes to \<^verbatim>\<open>get_gpt_result_use_case.execute\<close> it gives the run the generator meets.
  An exception before the \<^verbatim>\<open>try\<close> statement leaves the generator at once.
\<close>

definition on_user_message_streaming_execute ::
  "'t settings \<Rightarrow> os_env \<Rightarrow> (string \<Rightarrow> py_exc + json) \<Rightarrow> (json \<Rightarrow> py_exc + 'lm)
     \<Rightarrow> (UserMessageInput \<Rightarrow> string \<Rightarrow> 'doc list \<Rightarrow> string option \<Rightarrow> task_run)
     \<Rightarrow> 'ts \<Rightarrow> 'ts
     \<Rightarrow> UserMessageInput \<Rightarrow> 'doc DocumentStore \<Rightarrow> ConversationHistoryRepositoryLocal
     \<Rightarrow> ('lm, 'ts) effect list \<times> py_exc option" where
  "on_user_message_streaming_execute settings os json_loads from_dict get_gpt_result
       now_message now_response domain_input document_store history_repository =
     (case get_system_message settings os (PROMPTS_DIRECTORY settings) of
        Inl e \<Rightarrow> ([], Some e)
      | Inr system_message \<Rightarrow>
          (case get_context settings domain_input system_message document_store of
             (calls, Inl e) \<Rightarrow> (map (\<lambda>(q, k). Find q k) calls, Some e)
           | (calls, Inr context) \<Rightarrow>
               (case get_unity_communication_prompt settings os domain_input history_repository of
                  Inl e \<Rightarrow> (map (\<lambda>(q, k). Find q k) calls, Some e)
                | Inr unity_communication_prompt \<Rightarrow>
                    (case streaming_phase json_loads from_dict domain_input now_message now_response
                            (get_gpt_result domain_input system_message context
                               unity_communication_prompt) of
                       (trace, leaving) \<Rightarrow> (map (\<lambda>(q, k). Find q k) calls @ trace, leaving)))))"

text \<open>
  The escaping in the words of the specification: every \<open>{\<close> becomes \<open>{{\<close>, every
  \<open>}\<close> becomes \<open>}}\<close>, every other character stays. It is compared with the two
  chained \<^verbatim>\<open>replace\<close> calls of \<open>add_history\<close>.
\<close>

definition escape_braces_spec :: "string \<Rightarrow> string" where
  "escape_braces_spec h =
     concat (map (\<lambda>c. if c = CHR ''{'' then ''{{'' else if c = CHR ''}'' then ''}}'' else [c]) h)"

text \<open>Fixed inputs for the concrete instances below.\<close>

definition demo_settings :: "int settings" where
  "demo_settings =
     \<lparr>JWT_CLIENT_ID = ''id'', JWT_CLIENT_SECRET = ''secret'',
      JWT_TOKEN_EXPIRATION_SECONDS = 3600, MAX_CONTEXT_DOCUMENTS_COUNT = 4,
      PROMPT_HISTORY_INCLUDED_COUNT = 4, PROMPTS_DIRECTORY = ''prompts'',
      CONVERSATIONS_DIR = ''conversations'', UNITY_COPILOT_URL = None\<rparr>"

definition demo_os :: "string \<Rightarrow> os_env" where
  "demo_os content = \<lparr>makedirs = (\<lambda>p. None), open_read = (\<lambda>p. Inr content)\<rparr>"

definition demo_repository :: "string \<Rightarrow> ConversationHistoryRepositoryLocal" where
  "demo_repository h = \<lparr>get_prompt_history = (\<lambda>c n. Inr h)\<rparr>"

definition demo_input :: UserMessageInput where
  "demo_input = \<lparr>chat_id = 7, message = ''hello'', response_message_id = ''r1''\<rparr>"

definition demo_store :: "string DocumentStore" where
  "demo_store = \<lparr>store_find = (\<lambda>q k. Inr (take (nat k) [''d1'', ''d2'', ''d3'', ''d4'', ''d5'']))\<rparr>"

definition demo_jwt_encode :: "(string \<times> int jwt_value) list \<Rightarrow> string \<Rightarrow> string \<Rightarrow> string" where
  "demo_jwt_encode payload key algorithm = algorithm @ ''.'' @ concat (map fst payload)"

text \<open>A table standing for \<^verbatim>\<open>json.loads\<close> on the raw events of the instances.\<close>

definition demo_json_loads :: "string \<Rightarrow> py_exc + json" where
  \<open>demo_json_loads raw =
     (if raw = ''{"token":"Hi"}'' then Inr (JObj [(''token'', JStr ''Hi'')])
      else if raw = ''{"token":" there"}'' then Inr (JObj [(''token'', JStr '' there'')])
      else if raw = ''{"token":"", "loading_message":{"message":"Searching"}}''
        then Inr (JObj [(''token'', JStr []),
                        (''loading_message'', JObj [(''message'', JStr ''Searching'')])])
      else if raw = ''{"token":"Hi", "loading_message":{"message":"Searching"}}''
        then Inr (JObj [(''token'', JStr ''Hi''),
                        (''loading_message'', JObj [(''message'', JStr ''Searching'')])])
      else Inl (PyExc ''JSONDecodeError'' True))\<close>

section \<open>Facts about \<^verbatim>\<open>str.replace\<close>\<close>

lemma str_replace_zero: "str_replace old new (Some 0) s = s"
  by (simp add: str_replace.simps)

lemma str_replace_char_all:
  "str_replace [c] new None s = concat (map (\<lambda>x. if x = c then new else [x]) s)"
proof (induction s)
  case Nil
  show ?case by (simp add: str_replace.simps)
next
  case (Cons x xs)
  show ?case
    using Cons.IH by (subst str_replace.simps) auto
qed

text \<open>The two chained replacements escape each brace once: the second pass finds no
  \<open>}\<close> in what the first pass put in.\<close>

lemma str_replace_escape:
  "str_replace ''}'' ''}}'' None (str_replace ''{'' ''{{'' None h) = escape_braces_spec h"
  unfolding str_replace_char_all escape_braces_spec_def
  by (induction h) simp_all

lemma prefix_in_window:
  assumes "prefix old (p # ps @ old @ post)" and "old \<noteq> []"
  shows "prefix old (p # ps @ butlast old)"
proof -
  have "length old \<le> length (p # ps @ butlast old)" by simp
  moreover have "p # ps @ old @ post = (p # ps @ butlast old) @ (last old # post)"
    using assms(2) by simp
  ultimately show ?thesis
    using assms(1) by (metis prefix_length_prefix prefixI)
qed

text \<open>
  The occurrence of \<open>old\<close> after \<open>pre\<close> is the first one when no occurrence starts
  inside \<open>pre\<close>, that is, when \<open>old\<close> is not a substring of \<open>pre @ butlast old\<close>.
  A replacement with a count takes the first occurrence and goes on behind it.
\<close>

lemma str_replace_first:
  assumes "old \<noteq> []" and "\<not> sublist old (pre @ butlast old)"
  shows "str_replace old new (Some (Suc n)) (pre @ old @ post)
           = pre @ new @ str_replace old new (Some n) post"
  using assms(2)
proof (induction pre)
  case Nil
  show ?case using assms(1)
    by (subst str_replace.simps) simp
next
  case (Cons p ps)
  have np: "\<not> prefix old (p # ps @ old @ post)"
    using Cons.prems prefix_in_window [OF _ assms(1)]
    by (auto simp: sublist_Cons_right)
  have "\<not> sublist old (ps @ butlast old)"
    using Cons.prems by (simp add: sublist_Cons_right)
  then have IH: "str_replace old new (Some (Suc n)) (ps @ old @ post)
                   = ps @ new @ str_replace old new (Some n) post"
    by (rule Cons.IH)
  show ?case
    using np assms(1) by (subst str_replace.simps) (simp add: IH)
qed

lemma str_replace_first_once:
  assumes "old \<noteq> []" and "\<not> sublist old (pre @ butlast old)"
  shows "str_replace old new (Some 1) (pre @ old @ post) = pre @ new @ post"
  using str_replace_first [OF assms, of new 0 post] by (simp add: str_replace_zero)

lemma str_replace_absent:
  assumes "old \<noteq> []" and "\<not> sublist old s"
  shows "str_replace old new cnt s = s"
  using assms(2)
proof (induction s)
  case Nil
  show ?case using assms(1) by (simp add: str_replace.simps)
next
  case (Cons x xs)
  then have "\<not> prefix old (x # xs)" and "\<not> sublist old xs"
    by (simp_all add: sublist_Cons_right)
  then show ?case using assms(1) Cons.IH
    by (subst str_replace.simps) (simp add: str_replace_zero)
qed

lemma add_history_fetched:
  assumes "makedirs os (CONVERSATIONS_DIR settings) = None"
    and "get_prompt_history history_repository cid (PROMPT_HISTORY_INCLUDED_COUNT settings) = Inr h"
  shows "add_history settings os template cid history_repository =
           Inr \<lparr>template_with_history =
                  str_replace ''{history}'' (escape_braces_spec h) (Some 1) template,
                formatted_history = escape_braces_spec h\<rparr>"
  using assms by (simp add: add_history_def str_replace_escape Let_def)

section \<open>History formatting\<close>

text \<open>
  C5. \<open>add_history\<close> escapes the fetched history text character by character (every
  \<open>{\<close> becomes \<open>{{\<close>, every \<open>}\<close> becomes \<open>}}\<close>) before it substitutes it, and puts
  the escaped text in place of the first occurrence of \<open>{history}\<close> only: whatever
  stands before and behind that occurrence in the template is kept as it is (also a
  later \<open>{history}\<close>), and the escaped text is not scanned or escaped again. The
  theorem is for a template that has the placeholder and a fetch that returns.
\<close>

theorem add_history_escapes_then_substitutes:
  assumes "makedirs os (CONVERSATIONS_DIR settings) = None"
    and "get_prompt_history history_repository cid (PROMPT_HISTORY_INCLUDED_COUNT settings) = Inr h"
    and "\<not> sublist ''{history}'' (pre @ ''{history'')"
  shows "add_history settings os (pre @ ''{history}'' @ post) cid history_repository =
           Inr \<lparr>template_with_history = pre @ escape_braces_spec h @ post,
                formatted_history = escape_braces_spec h\<rparr>"
proof -
  have "str_replace ''{history}'' (escape_braces_spec h) (Some 1) (pre @ ''{history}'' @ post)
          = pre @ escape_braces_spec h @ post"
    using assms(3) by (intro str_replace_first_once) simp_all
  then show ?thesis
    using add_history_fetched [OF assms(1,2)] by simp
qed

theorem add_history_escapes_then_substitutes_witness:
  "add_history demo_settings (demo_os []) ''Past: {history} and {history}'' 7
       (demo_repository ''say {x} or }{'')
     = Inr \<lparr>template_with_history = ''Past: say {{x}} or }}{{ and {history}'',
            formatted_history = ''say {{x}} or }}{{''\<rparr>"
  using add_history_escapes_then_substitutes
          [of "demo_os []" demo_settings "demo_repository ''say {x} or }{''" 7
              "''say {x} or }{''" "''Past: ''" "'' and {history}''"]
  by (simp add: demo_os_def demo_settings_def demo_repository_def escape_braces_spec_def
        sublist_Cons_right)

text \<open>
  C8. With an empty history text, \<open>formatted_history\<close> is empty and
  \<open>template_with_history\<close> is the template with its (first) \<open>{history}\<close> placeholder
  replaced by the empty string; a template without the placeholder comes back
  unchanged.
\<close>

theorem add_history_empty_history:
  assumes "makedirs os (CONVERSATIONS_DIR settings) = None"
    and "get_prompt_history history_repository cid (PROMPT_HISTORY_INCLUDED_COUNT settings) = Inr []"
  shows "(\<not> sublist ''{history}'' (pre @ ''{history'') \<longrightarrow>
            add_history settings os (pre @ ''{history}'' @ post) cid history_repository =
              Inr \<lparr>template_with_history = pre @ post, formatted_history = []\<rparr>)
       \<and> (\<not> sublist ''{history}'' template \<longrightarrow>
            add_history settings os template cid history_repository =
              Inr \<lparr>template_with_history = template, formatted_history = []\<rparr>)"
proof (intro conjI impI)
  assume "\<not> sublist ''{history}'' (pre @ ''{history'')"
  then have "str_replace ''{history}'' [] (Some 1) (pre @ ''{history}'' @ post) = pre @ [] @ post"
    by (intro str_replace_first_once) simp_all
  then show "add_history settings os (pre @ ''{history}'' @ post) cid history_repository =
               Inr \<lparr>template_with_history = pre @ post, formatted_history = []\<rparr>"
    using add_history_fetched [OF assms] by (simp add: escape_braces_spec_def)
next
  assume "\<not> sublist ''{history}'' template"
  then have "str_replace ''{history}'' [] (Some 1) template = template"
    by (intro str_replace_absent) simp_all
  then show "add_history settings os template cid history_repository =
               Inr \<lparr>template_with_history = template, formatted_history = []\<rparr>"
    using add_history_fetched [OF assms] by (simp add: escape_braces_spec_def)
qed

theorem add_history_empty_history_witness:
  "add_history demo_settings (demo_os []) ''A {history} B'' 7 (demo_repository [])
     = Inr \<lparr>template_with_history = ''A  B'', formatted_history = []\<rparr>
   \<and> add_history demo_settings (demo_os []) ''no placeholder'' 7 (demo_repository [])
     = Inr \<lparr>template_with_history = ''no placeholder'', formatted_history = []\<rparr>"
  using add_history_empty_history
          [of "demo_os []" demo_settings "demo_repository []" 7 "''A ''" "'' B''" "''no placeholder''"]
  by (simp add: demo_os_def demo_settings_def demo_repository_def sublist_Cons_right)

section \<open>The companion prompt\<close>

text \<open>
  C7. When the companion URL setting is unset (\<^verbatim>\<open>None\<close>, or empty: both are false in
  Python), \<open>get_unity_communication_prompt\<close> returns \<^verbatim>\<open>None\<close>, which is not the empty
  string. When it is set and the template file and the history are read, it returns
  the function template with the escaped history put in place of \<open>{history}\<close> and then
  the user's message put in place of \<open>{question}\<close>; for a template of the shape
  \<open>a {history} b {question} c\<close> that is \<open>a\<close>, the escaped history, \<open>b\<close>, the message, \<open>c\<close>.
\<close>

theorem get_unity_communication_prompt_cases:
  "(\<not> truthy_opt_str (UNITY_COPILOT_URL settings) \<longrightarrow>
        get_unity_communication_prompt settings os domain_input history_repository = Inr None
      \<and> get_unity_communication_prompt settings os domain_input history_repository \<noteq> Inr (Some []))
   \<and> (truthy_opt_str (UNITY_COPILOT_URL settings)
        \<and> get_function_system_message settings os = Inr tpl
        \<and> makedirs os (CONVERSATIONS_DIR settings) = None
        \<and> get_prompt_history history_repository (chat_id domain_input)
              (PROMPT_HISTORY_INCLUDED_COUNT settings) = Inr h \<longrightarrow>
        get_unity_communication_prompt settings os domain_input history_repository =
          Inr (Some (str_replace ''{question}'' (message domain_input) (Some 1)
                       (str_replace ''{history}'' (escape_braces_spec h) (Some 1) tpl)))
      \<and> (tpl = a @ ''{history}'' @ b @ ''{question}'' @ c
            \<and> \<not> sublist ''{history}'' (a @ ''{history'')
            \<and> \<not> sublist ''{question}'' (a @ escape_braces_spec h @ b @ ''{question'') \<longrightarrow>
          get_unity_communication_prompt settings os domain_input history_repository =
            Inr (Some (a @ escape_braces_spec h @ b @ message domain_input @ c))))"
proof (intro conjI impI)
  assume "\<not> truthy_opt_str (UNITY_COPILOT_URL settings)"
  then show "get_unity_communication_prompt settings os domain_input history_repository = Inr None"
    and "get_unity_communication_prompt settings os domain_input history_repository \<noteq> Inr (Some [])"
    by (simp_all add: get_unity_communication_prompt_def)
next
  assume set: "truthy_opt_str (UNITY_COPILOT_URL settings)
        \<and> get_function_system_message settings os = Inr tpl
        \<and> makedirs os (CONVERSATIONS_DIR settings) = None
        \<and> get_prompt_history history_repository (chat_id domain_input)
              (PROMPT_HISTORY_INCLUDED_COUNT settings) = Inr h"
  then have hist: "add_history settings os tpl (chat_id domain_input) history_repository =
      Inr \<lparr>template_with_history = str_replace ''{history}'' (escape_braces_spec h) (Some 1) tpl,
           formatted_history = escape_braces_spec h\<rparr>"
    by (intro add_history_fetched) simp_all
  show general: "get_unity_communication_prompt settings os domain_input history_repository =
          Inr (Some (str_replace ''{question}'' (message domain_input) (Some 1)
                       (str_replace ''{history}'' (escape_braces_spec h) (Some 1) tpl)))"
    using set hist by (simp add: get_unity_communication_prompt_def)
  assume shape: "tpl = a @ ''{history}'' @ b @ ''{question}'' @ c
            \<and> \<not> sublist ''{history}'' (a @ ''{history'')
            \<and> \<not> sublist ''{question}'' (a @ escape_braces_spec h @ b @ ''{question'')"
  have "str_replace ''{history}'' (escape_braces_spec h) (Some 1)
          (a @ ''{history}'' @ (b @ ''{question}'' @ c))
        = a @ escape_braces_spec h @ (b @ ''{question}'' @ c)"
    using shape by (intro str_replace_first_once) simp_all
  moreover have "str_replace ''{question}'' (message domain_input) (Some 1)
          ((a @ escape_braces_spec h @ b) @ ''{question}'' @ c)
        = (a @ escape_braces_spec h @ b) @ message domain_input @ c"
    using shape by (intro str_replace_first_once) simp_all
  ultimately show "get_unity_communication_prompt settings os domain_input history_repository =
            Inr (Some (a @ escape_braces_spec h @ b @ message domain_input @ c))"
    using general shape by simp
qed

theorem get_unity_communication_prompt_cases_witness:
  "get_unity_communication_prompt demo_settings (demo_os ''H: {history} Q: {question}'')
       demo_input (demo_repository ''a{b}'') = Inr None
   \<and> get_unity_communication_prompt (demo_settings\<lparr>UNITY_COPILOT_URL := Some ''http://unity''\<rparr>)
       (demo_os ''H: {history} Q: {question}'') demo_input (demo_repository ''a{b}'')
     = Inr (Some ''H: a{{b}} Q: hello'')"
proof
  show "get_unity_communication_prompt demo_settings (demo_os ''H: {history} Q: {question}'')
       demo_input (demo_repository ''a{b}'') = Inr None"
    using get_unity_communication_prompt_cases
            [of demo_settings "demo_os ''H: {history} Q: {question}''" demo_input
                "demo_repository ''a{b}''"]
    by (simp add: demo_settings_def)
  have set: "truthy_opt_str (UNITY_COPILOT_URL (demo_settings\<lparr>UNITY_COPILOT_URL := Some ''http://unity''\<rparr>))
      \<and> get_function_system_message (demo_settings\<lparr>UNITY_COPILOT_URL := Some ''http://unity''\<rparr>)
            (demo_os ''H: {history} Q: {question}'') = Inr ''H: {history} Q: {question}''
      \<and> makedirs (demo_os ''H: {history} Q: {question}'')
            (CONVERSATIONS_DIR (demo_settings\<lparr>UNITY_COPILOT_URL := Some ''http://unity''\<rparr>)) = None
      \<and> get_prompt_history (demo_repository ''a{b}'') (chat_id demo_input)
            (PROMPT_HISTORY_INCLUDED_COUNT (demo_settings\<lparr>UNITY_COPILOT_URL := Some ''http://unity''\<rparr>))
          = Inr ''a{b}''"
    by (simp add: demo_os_def demo_repository_def get_function_system_message_def)
  have shape: "''H: {history} Q: {question}'' = ''H: '' @ ''{history}'' @ '' Q: '' @ ''{question}'' @ []
      \<and> \<not> sublist ''{history}'' (''H: '' @ ''{history'')
      \<and> \<not> sublist ''{question}'' (''H: '' @ escape_braces_spec ''a{b}'' @ '' Q: '' @ ''{question'')"
    by (simp add: escape_braces_spec_def sublist_Cons_right)
  have "get_unity_communication_prompt (demo_settings\<lparr>UNITY_COPILOT_URL := Some ''http://unity''\<rparr>)
       (demo_os ''H: {history} Q: {question}'') demo_input (demo_repository ''a{b}'')
     = Inr (Some (''H: '' @ escape_braces_spec ''a{b}'' @ '' Q: '' @ message demo_input @ []))"
    using get_unity_communication_prompt_cases
            [of "demo_settings\<lparr>UNITY_COPILOT_URL := Some ''http://unity''\<rparr>"
                "demo_os ''H: {history} Q: {question}''" demo_input "demo_repository ''a{b}''"
                "''H: {history} Q: {question}''" "''a{b}''" "''H: ''" "'' Q: ''" "[]"]
          set shape
    by blast
  then show "get_unity_communication_prompt (demo_settings\<lparr>UNITY_COPILOT_URL := Some ''http://unity''\<rparr>)
       (demo_os ''H: {history} Q: {question}'') demo_input (demo_repository ''a{b}'')
     = Inr (Some ''H: a{{b}} Q: hello'')"
    by (simp add: escape_braces_spec_def demo_input_def)
qed

text \<open>
  C10. In the companion prompt the user's message is put in place of the first
  occurrence of \<open>{question}\<close> in the template with history, as it is: its braces are
  not doubled, and what stands behind that occurrence (also a later \<open>{question}\<close>) is
  kept. A message with braces therefore brings them into the prompt unescaped.
\<close>

theorem get_unity_communication_prompt_question_literal:
  assumes "truthy_opt_str (UNITY_COPILOT_URL settings)"
    and "get_function_system_message settings os = Inr tpl"
    and "add_history settings os tpl (chat_id domain_input) history_repository = Inr unity_history"
    and "template_with_history unity_history = pre @ ''{question}'' @ post"
    and "\<not> sublist ''{question}'' (pre @ ''{question'')"
  shows "get_unity_communication_prompt settings os domain_input history_repository =
           Inr (Some (pre @ message domain_input @ post))"
proof -
  have "str_replace ''{question}'' (message domain_input) (Some 1) (pre @ ''{question}'' @ post)
          = pre @ message domain_input @ post"
    using assms(5) by (intro str_replace_first_once) simp_all
  then show ?thesis
    using assms(1-4) by (simp add: get_unity_communication_prompt_def)
qed

theorem get_unity_communication_prompt_question_literal_witness:
  "get_unity_communication_prompt (demo_settings\<lparr>UNITY_COPILOT_URL := Some ''http://unity''\<rparr>)
       (demo_os ''{history}|{question}|{question}'')
       (demo_input\<lparr>message := ''{context} }{''\<rparr>) (demo_repository ''{x}'')
     = Inr (Some ''{{x}}|{context} }{|{question}'')"
proof -
  have h: "add_history (demo_settings\<lparr>UNITY_COPILOT_URL := Some ''http://unity''\<rparr>)
             (demo_os ''{history}|{question}|{question}'') ''{history}|{question}|{question}''
             (chat_id (demo_input\<lparr>message := ''{context} }{''\<rparr>)) (demo_repository ''{x}'')
           = Inr \<lparr>template_with_history = ''{{x}}|{question}|{question}'',
                  formatted_history = ''{{x}}''\<rparr>"
    using add_history_fetched
            [of "demo_os ''{history}|{question}|{question}''"
                "demo_settings\<lparr>UNITY_COPILOT_URL := Some ''http://unity''\<rparr>"
                "demo_repository ''{x}''" "chat_id (demo_input\<lparr>message := ''{context} }{''\<rparr>)"
                "''{x}''" "''{history}|{question}|{question}''"]
          str_replace_first_once [of "''{history}''" "[]" "''{{x}}''" "''|{question}|{question}''"]
    by (simp add: demo_os_def demo_settings_def demo_repository_def escape_braces_spec_def
          sublist_Cons_right)
  show ?thesis
    using get_unity_communication_prompt_question_literal
            [of "demo_settings\<lparr>UNITY_COPILOT_URL := Some ''http://unity''\<rparr>"
                "demo_os ''{history}|{question}|{question}''" "''{history}|{question}|{question}''"
                "demo_input\<lparr>message := ''{context} }{''\<rparr>" "demo_repository ''{x}''"
                "\<lparr>template_with_history = ''{{x}}|{question}|{question}'',
                  formatted_history = ''{{x}}''\<rparr>" "''{{x}}|''" "''|{question}''", OF _ _ h]
    by (simp add: demo_settings_def demo_os_def demo_input_def get_function_system_message_def
          sublist_Cons_right)
qed

section \<open>Token issuance\<close>

text \<open>
  C9. If the pair of client id and client secret differs from the configured pair,
  token issuance raises \<open>InvalidCredentialsAPIError\<close> and returns no token. If it
  matches, the result is the token \<^verbatim>\<open>jwt.encode\<close> signs with the configured secret
  (algorithm HS256) over the payload with \<open>iat\<close> the clock reading minus 100, \<open>exp\<close>
  the clock reading plus the configured expiration window, and \<open>sub\<close> the user id.
\<close>

theorem create_access_token_cases:
  "((client_id \<noteq> JWT_CLIENT_ID settings \<or> client_secret \<noteq> JWT_CLIENT_SECRET settings) \<longrightarrow>
      create_access_token_execute settings jwt_encode time_iat time_exp client_id client_secret user_id
        = Inl InvalidCredentialsAPIError)
   \<and> (client_id = JWT_CLIENT_ID settings \<and> client_secret = JWT_CLIENT_SECRET settings \<longrightarrow>
      create_access_token_execute settings jwt_encode time_iat time_exp client_id client_secret user_id
        = Inr (jwt_encode
                 [(''iat'', JwtNum (time_iat - 100)),
                  (''exp'', JwtNum (time_exp + JWT_TOKEN_EXPIRATION_SECONDS settings)),
                  (''sub'', JwtStr user_id)]
                 (JWT_CLIENT_SECRET settings) ''HS256''))"
  by (simp add: create_access_token_execute_def)

theorem create_access_token_cases_witness:
  "create_access_token_execute demo_settings demo_jwt_encode 1000 1001 ''id'' ''wrong'' ''u1''
     = Inl (PyExc ''InvalidCredentialsAPIError'' True)
   \<and> create_access_token_execute demo_settings demo_jwt_encode 1000 1001 ''id'' ''secret'' ''u1''
     = Inr (demo_jwt_encode
              [(''iat'', JwtNum 900), (''exp'', JwtNum 4601), (''sub'', JwtStr ''u1'')]
              ''secret'' ''HS256'')"
  using create_access_token_cases
          [of "''id''" demo_settings "''wrong''" demo_jwt_encode 1000 1001 "''u1''"]
        create_access_token_cases
          [of "''id''" demo_settings "''secret''" demo_jwt_encode 1000 1001 "''u1''"]
  by (simp add: demo_settings_def InvalidCredentialsAPIError_def)

section \<open>Context assembly\<close>

text \<open>
  C6. If the system message does not contain the marker \<open>{context}\<close>, \<open>get_context\<close>
  returns the empty context and makes no call to the document store. If it does, it
  makes exactly one call, with the user's message as query and \<open>k\<close> the configured
  maximum count, and returns what the store returned, in the store's order (or raises
  what the store raised).
\<close>

theorem get_context_cases:
  "(\<not> sublist ''{context}'' system_message \<longrightarrow>
      get_context settings domain_input system_message document_store = ([], Inr []))
   \<and> (sublist ''{context}'' system_message \<longrightarrow>
      get_context settings domain_input system_message document_store
        = ([(message domain_input, MAX_CONTEXT_DOCUMENTS_COUNT settings)],
           store_find document_store (message domain_input) (MAX_CONTEXT_DOCUMENTS_COUNT settings)))"
  by (simp add: get_context_def Let_def split: sum.split)

theorem get_context_cases_witness:
  "get_context demo_settings demo_input ''Answer the question.'' demo_store = ([], Inr [])
   \<and> get_context demo_settings demo_input ''Use {context} to answer.'' demo_store
       = ([(''hello'', 4)], Inr [''d1'', ''d2'', ''d3'', ''d4''])"
  using get_context_cases [of "''Answer the question.''" demo_settings demo_input demo_store]
        get_context_cases [of "''Use {context} to answer.''" demo_settings demo_input demo_store]
  by (simp add: demo_settings_def demo_input_def demo_store_def sublist_Cons_right)

section \<open>The streaming phase\<close>

text \<open>
  When every event of the channel is translated without an exception, the loop yields
  the chunks of the events one after the other, in the order of the events.
\<close>

lemma drain_channel_all_translate:
  "list_all (\<lambda>raw. snd (loop_body json_loads from_dict cid raw) = None) items \<Longrightarrow>
     drain_channel json_loads from_dict cid items ending
       = (concat (map (\<lambda>raw. fst (loop_body json_loads from_dict cid raw)) items), ending)"
proof (induction items)
  case Nil
  show ?case by simp
next
  case (Cons raw rest)
  obtain ys where lb: "loop_body json_loads from_dict cid raw = (ys, None)"
    using Cons.prems by (cases "loop_body json_loads from_dict cid raw") simp
  have "drain_channel json_loads from_dict cid rest ending
       = (concat (map (\<lambda>raw. fst (loop_body json_loads from_dict cid raw)) rest), ending)"
    using Cons by simp
  then show ?case using lb by simp
qed

text \<open>When the \<^verbatim>\<open>try\<close> block is left by an exception, \<^verbatim>\<open>result\<close> is still empty.\<close>

lemma try_block_raised_result:
  "try_block json_loads from_dict cid run = (yielded, result, Some exc) \<Longrightarrow> result = []"
  unfolding try_block_def
  by (cases "drain_channel json_loads from_dict cid (channel_items run) (channel_raises run)";
      cases "task_outcome run")
     (auto split: option.splits)

text \<open>
  On every path the \<^verbatim>\<open>finally\<close> block runs after the last chunk: the trace is the
  chunks and then the two calls, with the value \<^verbatim>\<open>result\<close> has at that point.
\<close>

lemma streaming_phase_trace:
  "fst (streaming_phase json_loads from_dict domain_input t_msg t_resp run) =
     map Yield
       (fst (try_block json_loads from_dict (chat_id domain_input) run) @
        (case snd (snd (try_block json_loads from_dict (chat_id domain_input) run)) of
           None \<Rightarrow> []
         | Some exc \<Rightarrow>
             if is_Exception exc then [error_chunk (chat_id domain_input) exc] else [])) @
     [ValidateUrls (fst (snd (try_block json_loads from_dict (chat_id domain_input) run)))
        (chat_id domain_input),
      SaveHistory (message domain_input)
        (fst (snd (try_block json_loads from_dict (chat_id domain_input) run)))
        t_msg t_resp (chat_id domain_input) (response_message_id domain_input)]"
proof -
  obtain ys r ex where tb: "try_block json_loads from_dict (chat_id domain_input) run = (ys, r, ex)"
    by (cases "try_block json_loads from_dict (chat_id domain_input) run") auto
  show ?thesis
    unfolding streaming_phase_def tb by (cases ex) simp_all
qed

text \<open>
  The generator as a whole: once the system message, the context and the companion
  prompt are there, its trace is the store calls followed by the streaming phase of
  the run the task gives.
\<close>

lemma execute_enters_streaming_phase:
  assumes "get_system_message settings os (PROMPTS_DIRECTORY settings) = Inr system_message"
    and "get_context settings domain_input system_message document_store = (calls, Inr context)"
    and "get_unity_communication_prompt settings os domain_input history_repository = Inr prompt"
  shows "on_user_message_streaming_execute settings os json_loads from_dict get_gpt_result
           t_msg t_resp domain_input document_store history_repository
         = (map (\<lambda>(q, k). Find q k) calls @
              fst (streaming_phase json_loads from_dict domain_input t_msg t_resp
                     (get_gpt_result domain_input system_message context prompt)),
            snd (streaming_phase json_loads from_dict domain_input t_msg t_resp
                   (get_gpt_result domain_input system_message context prompt)))"
  using assms by (simp add: on_user_message_streaming_execute_def case_prod_beta)

text \<open>
  An exception that leaves the \<^verbatim>\<open>try\<close> block is caught when its class derives from
  \<^verbatim>\<open>Exception\<close>; any other passes the handler and leaves the generator after the
  \<^verbatim>\<open>finally\<close> block.
\<close>

lemma streaming_phase_raised:
  assumes "try_block json_loads from_dict (chat_id domain_input) run = (yielded, result, Some exc)"
  shows "streaming_phase json_loads from_dict domain_input t_msg t_resp run =
           (if is_Exception exc
              then (map Yield yielded @
                      [Yield (error_chunk (chat_id domain_input) exc),
                       ValidateUrls [] (chat_id domain_input),
                       SaveHistory (message domain_input) [] t_msg t_resp
                         (chat_id domain_input) (response_message_id domain_input)],
                    None)
            else (map Yield yielded @
                      [ValidateUrls [] (chat_id domain_input),
                       SaveHistory (message domain_input) [] t_msg t_resp
                         (chat_id domain_input) (response_message_id domain_input)],
                    Some exc))"
  using try_block_raised_result [OF assms] assms
  by (simp add: streaming_phase_def)

text \<open>The two events of the worked scenarios.\<close>

lemma demo_loop_body_Hi:
  \<open>loop_body demo_json_loads (Inr :: json \<Rightarrow> py_exc + json) cid ''{"token":"Hi"}''
     = ([\<lparr>StreamingChunk.chat_id = cid, text = JStr ''Hi'', sources = [],
           loading_message = None, error = None\<rparr>], None)\<close>
  by (simp add: loop_body_def demo_json_loads_def)

lemma demo_loop_body_there:
  \<open>loop_body demo_json_loads (Inr :: json \<Rightarrow> py_exc + json) cid ''{"token":" there"}''
     = ([\<lparr>StreamingChunk.chat_id = cid, text = JStr '' there'', sources = [],
           loading_message = None, error = None\<rparr>], None)\<close>
  by (simp add: loop_body_def demo_json_loads_def)

text \<open>
  C1. Whatever the run of the background task (the channel exhausted and the task
  returning, an exception while the channel is drained or an event is parsed, the
  task raising when awaited, an exception the handler catches or one it lets pass),
  the trace of the streaming phase is the yielded chunks followed by exactly one call
  of \<^verbatim>\<open>validate_urls\<close> and then exactly one call of \<^verbatim>\<open>save_history\<close>, both with the
  same result text: apart from the chunks, the trace holds these two calls and nothing
  else.
\<close>

theorem finalization_exactly_once:
  "\<exists>chunks result.
     fst (streaming_phase json_loads from_dict domain_input t_msg t_resp run)
       = map Yield chunks @
         [ValidateUrls result (chat_id domain_input),
          SaveHistory (message domain_input) result t_msg t_resp
            (chat_id domain_input) (response_message_id domain_input)]
     \<and> filter (\<lambda>e. \<not> is_Yield e)
          (fst (streaming_phase json_loads from_dict domain_input t_msg t_resp run))
       = [ValidateUrls result (chat_id domain_input),
          SaveHistory (message domain_input) result t_msg t_resp
            (chat_id domain_input) (response_message_id domain_input)]"
proof -
  define chunks where "chunks = fst (try_block json_loads from_dict (chat_id domain_input) run) @
        (case snd (snd (try_block json_loads from_dict (chat_id domain_input) run)) of
           None \<Rightarrow> []
         | Some exc \<Rightarrow> if is_Exception exc then [error_chunk (chat_id domain_input) exc] else [])"
  define result where "result = fst (snd (try_block json_loads from_dict (chat_id domain_input) run))"
  have tr: "fst (streaming_phase json_loads from_dict domain_input t_msg t_resp run)
              = map Yield chunks @
         [ValidateUrls result (chat_id domain_input),
          SaveHistory (message domain_input) result t_msg t_resp
            (chat_id domain_input) (response_message_id domain_input)]"
    unfolding chunks_def result_def by (rule streaming_phase_trace)
  have "filter (\<lambda>e. \<not> is_Yield e) (map Yield chunks @
         [ValidateUrls result (chat_id domain_input),
          SaveHistory (message domain_input) result t_msg t_resp
            (chat_id domain_input) (response_message_id domain_input)])
       = [ValidateUrls result (chat_id domain_input),
          SaveHistory (message domain_input) result t_msg t_resp
            (chat_id domain_input) (response_message_id domain_input)]"
    by (simp add: filter_map comp_def)
  with tr show ?thesis by (intro exI [of _ chunks] exI [of _ result]) simp
qed

text \<open>
  C2, amended. If an exception whose class derives from \<^verbatim>\<open>Exception\<close> is raised
  while the channel is iterated or an event is parsed, or by the awaited task after
  the channel is exhausted, then the generator yields, after the chunks yielded so
  far, exactly one more chunk, the last one, with empty text and the error
  \<open>OpenAI error:\<close> followed by the name of the exception's class; the
  \<^verbatim>\<open>finally\<close> block is then called with the empty string as result; and no exception
  leaves the generator.
\<close>

theorem streaming_phase_exception_handled:
  assumes "drain_channel json_loads from_dict (chat_id domain_input)
               (channel_items run) (channel_raises run) = (yielded, Some exc)
           \<or> (drain_channel json_loads from_dict (chat_id domain_input)
                 (channel_items run) (channel_raises run) = (yielded, None)
               \<and> task_outcome run = Inl exc)"
    and "is_Exception exc"
  shows "streaming_phase json_loads from_dict domain_input t_msg t_resp run =
           (map Yield yielded @
              [Yield \<lparr>StreamingChunk.chat_id = chat_id domain_input, text = JStr [], sources = [],
                      loading_message = None,
                      error = Some (''OpenAI error: '' @ type_name exc)\<rparr>,
               ValidateUrls [] (chat_id domain_input),
               SaveHistory (message domain_input) [] t_msg t_resp
                 (chat_id domain_input) (response_message_id domain_input)],
            None)"
proof -
  have "try_block json_loads from_dict (chat_id domain_input) run = (yielded, [], Some exc)"
    using assms(1) by (auto simp: try_block_def)
  then show ?thesis
    using assms(2) by (simp add: streaming_phase_raised error_chunk_def)
qed

theorem streaming_phase_exception_handled_witness:
  \<open>streaming_phase demo_json_loads (Inr :: json \<Rightarrow> py_exc + json) demo_input (10::nat) 20
       \<lparr>channel_items = [''{"token":"Hi"}''],
        channel_raises = Some (PyExc ''RuntimeError'' True),
        task_outcome = Inr ''Hi there''\<rparr>
     = ([Yield \<lparr>StreamingChunk.chat_id = 7, text = JStr ''Hi'', sources = [],
                loading_message = None, error = None\<rparr>,
         Yield \<lparr>StreamingChunk.chat_id = 7, text = JStr [], sources = [],
                loading_message = None, error = Some ''OpenAI error: RuntimeError''\<rparr>,
         ValidateUrls [] 7,
         SaveHistory ''hello'' [] 10 20 7 ''r1''],
        None)\<close>
  using streaming_phase_exception_handled
          [of demo_json_loads "Inr :: json \<Rightarrow> py_exc + json" demo_input
              \<open>\<lparr>channel_items = [''{"token":"Hi"}''],
                channel_raises = Some (PyExc ''RuntimeError'' True),
                task_outcome = Inr ''Hi there''\<rparr>\<close>
              "[\<lparr>StreamingChunk.chat_id = 7, text = JStr ''Hi'', sources = [],
                  loading_message = None, error = None\<rparr>]"
              "PyExc ''RuntimeError'' True" "10::nat" 20]
  by (simp add: demo_input_def demo_loop_body_Hi)

text \<open>
  C2 as stated speaks of any exception. The handler is \<^verbatim>\<open>except Exception\<close>: when
  the iteration of the channel raises \<^verbatim>\<open>asyncio.CancelledError\<close>, which does not derive
  from \<^verbatim>\<open>Exception\<close>, no error chunk is yielded and the exception leaves the
  generator (after the \<^verbatim>\<open>finally\<close> block has run).
\<close>

theorem streaming_phase_cancelled_counterexample:
  \<open>streaming_phase demo_json_loads (Inr :: json \<Rightarrow> py_exc + json) demo_input (10::nat) 20
       \<lparr>channel_items = [''{"token":"Hi"}''],
        channel_raises = Some (PyExc ''CancelledError'' False),
        task_outcome = Inl (PyExc ''CancelledError'' False)\<rparr>
     = ([Yield \<lparr>StreamingChunk.chat_id = 7, text = JStr ''Hi'', sources = [],
                loading_message = None, error = None\<rparr>,
         ValidateUrls [] 7,
         SaveHistory ''hello'' [] 10 20 7 ''r1''],
        Some (PyExc ''CancelledError'' False))\<close>
  by (simp add: streaming_phase_def try_block_def demo_input_def demo_loop_body_Hi)

text \<open>
  C3, amended. For a raw event that parses to a dict, with \<open>token\<close> and \<open>lm\<close> the
  values \<^verbatim>\<open>parsed.get\<close> gives for the keys \<^verbatim>\<open>token\<close> and \<^verbatim>\<open>loading_message\<close>
  (\<^verbatim>\<open>None\<close> for a missing key): a chunk with the token as text and empty sources is
  yielded when the token is truthy (present, not null, not empty); a chunk with empty
  text and the parsed loading message is yielded when \<open>lm\<close> is truthy and
  \<^verbatim>\<open>LoadingMessage.from_dict\<close> returns. The two tests are independent: both truthy
  gives exactly two chunks, the token chunk first; neither truthy gives no chunk. Over
  a channel whose events all translate without an exception the chunks come in the
  order of the events.
\<close>

theorem loop_body_truthy_cases:
  assumes "json_loads raw = Inr parsed"
    and "dict_get parsed ''token'' = Inr token"
    and "dict_get parsed ''loading_message'' = Inr lm"
  shows "(truthy token \<and> truthy lm \<and> from_dict lm = Inr parsed_lm \<longrightarrow>
            loop_body json_loads from_dict cid raw =
              ([\<lparr>StreamingChunk.chat_id = cid, text = token, sources = [],
                  loading_message = None, error = None\<rparr>,
                \<lparr>StreamingChunk.chat_id = cid, text = JStr [], sources = [],
                  loading_message = Some parsed_lm, error = None\<rparr>], None))
       \<and> (truthy token \<and> \<not> truthy lm \<longrightarrow>
            loop_body json_loads from_dict cid raw =
              ([\<lparr>StreamingChunk.chat_id = cid, text = token, sources = [],
                  loading_message = None, error = None\<rparr>], None))
       \<and> (\<not> truthy token \<and> truthy lm \<and> from_dict lm = Inr parsed_lm \<longrightarrow>
            loop_body json_loads from_dict cid raw =
              ([\<lparr>StreamingChunk.chat_id = cid, text = JStr [], sources = [],
                  loading_message = Some parsed_lm, error = None\<rparr>], None))
       \<and> (\<not> truthy token \<and> \<not> truthy lm \<longrightarrow>
            loop_body json_loads from_dict cid raw = ([], None))
       \<and> (list_all (\<lambda>r. snd (loop_body json_loads from_dict cid r) = None) items \<longrightarrow>
            drain_channel json_loads from_dict cid items None =
              (concat (map (\<lambda>r. fst (loop_body json_loads from_dict cid r)) items), None))"
  using assms by (simp add: loop_body_def drain_channel_all_translate)

theorem loop_body_truthy_cases_witness:
  \<open>loop_body demo_json_loads (Inr :: json \<Rightarrow> py_exc + json) 7
       ''{"token":"Hi", "loading_message":{"message":"Searching"}}''
     = ([\<lparr>StreamingChunk.chat_id = 7, text = JStr ''Hi'', sources = [],
           loading_message = None, error = None\<rparr>,
         \<lparr>StreamingChunk.chat_id = 7, text = JStr [], sources = [],
           loading_message = Some (JObj [(''message'', JStr ''Searching'')]), error = None\<rparr>],
        None)\<close>
  using loop_body_truthy_cases
          [of demo_json_loads \<open>''{"token":"Hi", "loading_message":{"message":"Searching"}}''\<close>
              "JObj [(''token'', JStr ''Hi''),
                     (''loading_message'', JObj [(''message'', JStr ''Searching'')])]"
              "JStr ''Hi''" "JObj [(''message'', JStr ''Searching'')]"
              "Inr :: json \<Rightarrow> py_exc + json" "JObj [(''message'', JStr ''Searching'')]" 7 "[]"]
  by (simp add: demo_json_loads_def)

text \<open>
  C3 as stated speaks of an event that carries the keys. The code tests the truth
  value of what \<^verbatim>\<open>parsed.get\<close> returns: an event that carries both keys, with the
  empty string as token, yields one chunk (the loading message), not two.
\<close>

theorem loop_body_empty_token_counterexample:
  \<open>demo_json_loads ''{"token":"", "loading_message":{"message":"Searching"}}''
     = Inr (JObj [(''token'', JStr []),
                  (''loading_message'', JObj [(''message'', JStr ''Searching'')])])
   \<and> loop_body demo_json_loads (Inr :: json \<Rightarrow> py_exc + json) 7
       ''{"token":"", "loading_message":{"message":"Searching"}}''
     = ([\<lparr>StreamingChunk.chat_id = 7, text = JStr [], sources = [],
           loading_message = Some (JObj [(''message'', JStr ''Searching'')]), error = None\<rparr>],
        None)\<close>
  by (simp add: loop_body_def demo_json_loads_def)

text \<open>
  C4. When the channel is exhausted without an exception (every event translated)
  and the awaited task returns, the generator yields the chunks of the events and the
  \<^verbatim>\<open>finally\<close> block is called with the text the task returned, whatever the
  tokens streamed were; no error chunk is yielded and no exception leaves. For the
  events \<open>Hi\<close> and \<open> there\<close> and the task result \<open>Hi there\<close> the trace is the two
  text chunks, then the two calls with \<open>Hi there\<close>.
\<close>

theorem streaming_phase_success_uses_task_result:
  assumes "channel_raises run = None"
    and "list_all (\<lambda>raw. snd (loop_body json_loads from_dict (chat_id domain_input) raw) = None)
           (channel_items run)"
    and "task_outcome run = Inr task_result"
  shows "streaming_phase json_loads from_dict domain_input t_msg t_resp run =
           (map Yield
              (concat (map (\<lambda>raw. fst (loop_body json_loads from_dict (chat_id domain_input) raw))
                         (channel_items run))) @
            [ValidateUrls task_result (chat_id domain_input),
             SaveHistory (message domain_input) task_result t_msg t_resp
               (chat_id domain_input) (response_message_id domain_input)],
            None)"
  using assms(1,3) drain_channel_all_translate [OF assms(2), of "channel_raises run"]
  by (simp add: streaming_phase_def try_block_def)

theorem streaming_phase_success_uses_task_result_witness:
  \<open>streaming_phase demo_json_loads (Inr :: json \<Rightarrow> py_exc + json) demo_input (10::nat) 20
       \<lparr>channel_items = [''{"token":"Hi"}'', ''{"token":" there"}''],
        channel_raises = None, task_outcome = Inr ''Hi there''\<rparr>
     = ([Yield \<lparr>StreamingChunk.chat_id = 7, text = JStr ''Hi'', sources = [],
                loading_message = None, error = None\<rparr>,
         Yield \<lparr>StreamingChunk.chat_id = 7, text = JStr '' there'', sources = [],
                loading_message = None, error = None\<rparr>,
         ValidateUrls ''Hi there'' 7,
         SaveHistory ''hello'' ''Hi there'' 10 20 7 ''r1''],
        None)
   \<and> fst (streaming_phase demo_json_loads (Inr :: json \<Rightarrow> py_exc + json) demo_input (10::nat) 20
       \<lparr>channel_items = [''{"token":"Hi"}'', ''{"token":" there"}''],
        channel_raises = None, task_outcome = Inr ''Hello.''\<rparr>)
     = [Yield \<lparr>StreamingChunk.chat_id = 7, text = JStr ''Hi'', sources = [],
                loading_message = None, error = None\<rparr>,
         Yield \<lparr>StreamingChunk.chat_id = 7, text = JStr '' there'', sources = [],
                loading_message = None, error = None\<rparr>,
         ValidateUrls ''Hello.'' 7,
         SaveHistory ''hello'' ''Hello.'' 10 20 7 ''r1'']\<close>
  using streaming_phase_success_uses_task_result
          [of \<open>\<lparr>channel_items = [''{"token":"Hi"}'', ''{"token":" there"}''],
                channel_raises = None, task_outcome = Inr ''Hi there''\<rparr>\<close>
              demo_json_loads "Inr :: json \<Rightarrow> py_exc + json" demo_input "''Hi there''"
              "10::nat" 20]
        streaming_phase_success_uses_task_result
          [of \<open>\<lparr>channel_items = [''{"token":"Hi"}'', ''{"token":" there"}''],
                channel_raises = None, task_outcome = Inr ''Hello.''\<rparr>\<close>
              demo_json_loads "Inr :: json \<Rightarrow> py_exc + json" demo_input "''Hello.''"
              "10::nat" 20]
  by (simp add: demo_input_def demo_loop_body_Hi demo_loop_body_there)

end
